theory Spec2Isabelle
  imports Main "HOL-Library.Sublist"
begin

section \<open>AWS profile utilities (src/utils/aws/profile-utils.ts)\<close>

text \<open>
  The module has four exported functions and one private helper. Everything they touch
  outside their arguments is a host facility: \<open>vscode.env.remoteName\<close>, \<open>os.homedir\<close>,
  \<open>path.join\<close>, \<open>fs.access\<close>, \<open>fs.readFile\<close>, the logger and
  \<open>vscode.window.showErrorMessage\<close>. The reading facilities are the fields of the
  record \<open>host\<close>; the calls a function issues to the file system, the logger and the
  window are returned as a list of events, in the order in which they are issued.

  Strings are lists of characters; a character stands for one code unit of the source's
  string type. Nothing below depends on which characters exist.
\<close>

subsection \<open>Values thrown, promises, completions\<close>

text \<open>
  A rejected promise or a \<open>throw\<close> carries a value. The handlers of the module look at it
  only through \<open>error instanceof Error ? error.message : String(error)\<close>, so a thrown
  value is either an \<open>Error\<close> instance with its message, or some other value with the
  text \<open>String\<close> gives for it. The only calls that can fail are \<open>fs.access\<close> and
  \<open>fs.readFile\<close>: reading the message of an error, converting a value to a string,
  joining a path and calling the logger or the window always succeed.
\<close>

datatype thrown = ErrorInstance string | NonError string

datatype jsvalue = Undefined | Boolean bool

text \<open>The state a promise settles in.\<close>

datatype settled = Resolved jsvalue | Rejected thrown

text \<open>
  How a block of statements ends: it runs to its end, it executes \<open>return\<close> with a boolean,
  or it throws.
\<close>

datatype completion = Normal | Return bool | Throw thrown

subsection \<open>Logger and window calls, file system calls\<close>

datatype level = Debug | Warn | Error

datatype field = Str string | Flag bool

datatype event =
    FsAccess string
  | FsReadFile string string
  | Logger level string "(string \<times> field) list"
  | ShowErrorMessage string

record host =
  remoteName :: "string option"
  os_homedir :: string
  path_join :: "string list \<Rightarrow> string"
  fs_access :: "string \<Rightarrow> thrown + unit"
  fs_readFile :: "string \<Rightarrow> string \<Rightarrow> thrown + string"

subsection \<open>String.prototype.includes\<close>

text \<open>
  \<open>content.includes(s)\<close> is true when \<open>s\<close> occurs in \<open>content\<close> as a contiguous run of
  code units starting at some position; the empty string occurs in every string.
\<close>

primrec string_includes :: "string \<Rightarrow> string \<Rightarrow> bool" where
  "string_includes [] s = (s = [])"
| "string_includes (c # cs) s = (prefix s (c # cs) \<or> string_includes cs s)"

subsection \<open>isRemoteSSH\<close>

definition isRemoteSSH :: "host \<Rightarrow> bool" where
  "isRemoteSSH h =
     (let isRemote = (remoteName h \<noteq> None);
          isSSH = (remoteName h = Some ''ssh-remote'')
      in isRemote \<and> isSSH)"

subsection \<open>fileExists\<close>

text \<open>
  \<open>try { await fs.access(filePath); return true } catch { return false }\<close>: the value the
  rejection carries is dropped, and nothing is logged.
\<close>

definition fileExists :: "host \<Rightarrow> string \<Rightarrow> settled \<times> event list" where
  "fileExists h filePath =
     (case fs_access h filePath of
        Inr _ \<Rightarrow> (Resolved (Boolean True), [FsAccess filePath])
      | Inl _ \<Rightarrow> (Resolved (Boolean False), [FsAccess filePath]))"

subsection \<open>doesAwsProfileExist\<close>

text \<open>\<open>error instanceof Error ? error.message : String(error)\<close>\<close>

definition errorText :: "thrown \<Rightarrow> string" where
  "errorText error = (case error of ErrorInstance message \<Rightarrow> message | NonError s \<Rightarrow> s)"

definition credentialsPath :: "host \<Rightarrow> string" where
  "credentialsPath h = path_join h [os_homedir h, ''.aws'', ''credentials'']"

definition configPath :: "host \<Rightarrow> string" where
  "configPath h = path_join h [os_homedir h, ''.aws'', ''config'']"

text \<open>
  The body of a \<open>try\<close> block that checks one file, for the path and the marker of that
  file. Awaiting a rejected promise throws what it was rejected with; a condition that is
  not the boolean \<open>true\<close> skips its branch.
\<close>

definition fileTry :: "host \<Rightarrow> string \<Rightarrow> string \<Rightarrow> completion \<times> event list" where
  "fileTry h filePath marker =
     (case fileExists h filePath of
        (Rejected error, t) \<Rightarrow> (Throw error, t)
      | (Resolved exists, t) \<Rightarrow>
          if exists = Boolean True then
            (case fs_readFile h filePath ''utf8'' of
               Inl error \<Rightarrow> (Throw error, t @ [FsReadFile filePath ''utf8''])
             | Inr content \<Rightarrow>
                 if string_includes content marker
                 then (Return True, t @ [FsReadFile filePath ''utf8''])
                 else (Normal, t @ [FsReadFile filePath ''utf8'']))
          else (Normal, t))"

text \<open>
  A \<open>try\<close> block with its handler \<open>catch (error) { logger.debug(message, {ctx, error}) }\<close>.
\<close>

definition catchDebug :: "string \<Rightarrow> completion \<times> event list \<Rightarrow> completion \<times> event list" where
  "catchDebug message r =
     (case r of
        (Throw error, t) \<Rightarrow>
          (Normal, t @ [Logger Debug message
                          [(''ctx'', Str ''aws-profile''), (''error'', Str (errorText error))]])
      | (c, t) \<Rightarrow> (c, t))"

definition credentialsCheck :: "host \<Rightarrow> string \<Rightarrow> completion \<times> event list" where
  "credentialsCheck h profile =
     catchDebug ''Error checking AWS credentials file''
       (fileTry h (credentialsPath h) (''['' @ profile @ '']''))"

definition configCheck :: "host \<Rightarrow> string \<Rightarrow> completion \<times> event list" where
  "configCheck h profile =
     catchDebug ''Error checking AWS config file''
       (fileTry h (configPath h) (''[profile '' @ profile @ '']''))"

text \<open>The body of the outer \<open>try\<close>: the two checks in sequence, then \<open>return false\<close>.\<close>

definition outerTry :: "host \<Rightarrow> string \<Rightarrow> completion \<times> event list" where
  "outerTry h profile =
     (case credentialsCheck h profile of
        (Normal, t1) \<Rightarrow>
          (case configCheck h profile of
             (Normal, t2) \<Rightarrow> (Return False, t1 @ t2)
           | (c, t2) \<Rightarrow> (c, t1 @ t2))
      | (c, t1) \<Rightarrow> (c, t1))"

definition doesAwsProfileExist :: "host \<Rightarrow> string \<Rightarrow> settled \<times> event list" where
  "doesAwsProfileExist h profile =
     (case outerTry h profile of
        (Throw error, t) \<Rightarrow>
          (Resolved (Boolean False),
           t @ [Logger Error ''Error checking for AWS profile existence''
                  [(''ctx'', Str ''aws-profile''), (''profile'', Str profile),
                   (''error'', Str (errorText error))]])
      | (Return b, t) \<Rightarrow> (Resolved (Boolean b), t)
      | (Normal, t) \<Rightarrow> (Resolved Undefined, t))"

subsection \<open>showRemoteProfileError\<close>

definition showRemoteProfileError :: "string \<Rightarrow> unit \<times> event list" where
  "showRemoteProfileError profile =
     (let errorMessage =
            ''AWS Profile \"'' @ profile @ ''\" not found in the remote SSH host. '' @
            ''When using VS Code with remote SSH, AWS profiles must exist on the remote machine. '' @
            ''Please either create the profile on the remote machine or use direct AWS credentials instead.''
      in ((), [Logger Warn errorMessage
                 [(''ctx'', Str ''bedrock''), (''profile'', Str profile), (''isRemoteSSH'', Flag True)],
               ShowErrorMessage errorMessage]))"

subsection \<open>getDetailedRemoteProfileErrorMessage\<close>

definition getDetailedRemoteProfileErrorMessage :: "string \<Rightarrow> string" where
  "getDetailedRemoteProfileErrorMessage profile =
     ''Error: Could not find AWS profile \"'' @ profile @ ''\" on the remote SSH host.\<newline>      \<newline>When using VS Code with remote SSH, AWS profiles must exist on the remote machine.\<newline>\<newline>Options to resolve this issue:\<newline>1. Create the AWS profile on the remote machine\<newline>2. Switch to using direct AWS credentials instead of a profile\<newline>3. Copy your AWS credentials from your local machine to the remote machine''"

subsection \<open>Reading a trace\<close>

text \<open>
  \<open>onFile path e\<close>: the event is not a file system call on another path than \<open>path\<close>.
  \<open>isLogEntry l e\<close>: the event is a logger call at level \<open>l\<close>.
\<close>

definition onFile :: "string \<Rightarrow> event \<Rightarrow> bool" where
  "onFile path e =
     (case e of FsAccess q \<Rightarrow> q = path | FsReadFile q _ \<Rightarrow> q = path | _ \<Rightarrow> True)"

definition isLogEntry :: "level \<Rightarrow> event \<Rightarrow> bool" where
  "isLogEntry l e = (case e of Logger l' _ _ \<Rightarrow> l' = l | _ \<Rightarrow> False)"

subsection \<open>Example hosts\<close>

text \<open>
  The state of one file: it cannot be accessed, it can be accessed but reading it fails,
  or it can be read and has a content.
\<close>

datatype fileState = Inaccessible thrown | Unreadable thrown | Readable string

definition accessFile :: "fileState \<Rightarrow> thrown + unit" where
  "accessFile f = (case f of Inaccessible e \<Rightarrow> Inl e | Unreadable _ \<Rightarrow> Inr () | Readable _ \<Rightarrow> Inr ())"

definition readFile :: "fileState \<Rightarrow> thrown + string" where
  "readFile f = (case f of Inaccessible e \<Rightarrow> Inl e | Unreadable e \<Rightarrow> Inl e | Readable c \<Rightarrow> Inr c)"

text \<open>Joining path segments with a slash, as on a POSIX host for segments that need no normalising.\<close>

fun joinSlash :: "string list \<Rightarrow> string" where
  "joinSlash [] = ''.''"
| "joinSlash [p] = p"
| "joinSlash (p # ps) = p @ ''/'' @ joinSlash ps"

text \<open>
  A host whose home directory is \<open>/mock/home\<close>, with the given remote name and the given
  states of the credentials file and of the config file; no other file exists.
\<close>

definition mockHost :: "string option \<Rightarrow> fileState \<Rightarrow> fileState \<Rightarrow> host" where
  "mockHost remote credentials config =
     \<lparr> remoteName = remote,
       os_homedir = ''/mock/home'',
       path_join = joinSlash,
       fs_access = (\<lambda>path.
          if path = ''/mock/home/.aws/credentials'' then accessFile credentials
          else if path = ''/mock/home/.aws/config'' then accessFile config
          else Inl (ErrorInstance ''File not found'')),
       fs_readFile = (\<lambda>path encoding.
          if path = ''/mock/home/.aws/credentials'' then readFile credentials
          else if path = ''/mock/home/.aws/config'' then readFile config
          else Inl (ErrorInstance ''File not found'')) \<rparr>"

section \<open>Properties\<close>

subsection \<open>Auxiliary facts\<close>

lemma string_includes_sublist: "string_includes c s = sublist s c"
  by (induction c) (simp_all add: sublist_Cons_right)

lemma string_includes_iff: "string_includes c s \<longleftrightarrow> (\<exists>pre suf. c = pre @ s @ suf)"
  by (simp add: string_includes_sublist sublist_def)

lemma string_includes_appendI: "string_includes (pre @ s @ suf) s"
  unfolding string_includes_iff by blast

lemma fileTry_cases:
  "fileTry h path m =
     (case fs_access h path of
        Inl _ \<Rightarrow> (Normal, [FsAccess path])
      | Inr _ \<Rightarrow>
          (case fs_readFile h path ''utf8'' of
             Inl e \<Rightarrow> (Throw e, [FsAccess path, FsReadFile path ''utf8''])
           | Inr c \<Rightarrow> (if string_includes c m then Return True else Normal,
                       [FsAccess path, FsReadFile path ''utf8''])))"
  by (simp add: fileTry_def fileExists_def split: sum.splits)

text \<open>One file's check, handler included, in closed form.\<close>

lemma check_cases:
  "catchDebug msg (fileTry h path m) =
     (case fs_access h path of
        Inl _ \<Rightarrow> (Normal, [FsAccess path])
      | Inr _ \<Rightarrow>
          (case fs_readFile h path ''utf8'' of
             Inl e \<Rightarrow> (Normal, [FsAccess path, FsReadFile path ''utf8'',
                                Logger Debug msg [(''ctx'', Str ''aws-profile''), (''error'', Str (errorText e))]])
           | Inr c \<Rightarrow> (if string_includes c m then Return True else Normal,
                       [FsAccess path, FsReadFile path ''utf8''])))"
  by (simp add: fileTry_cases catchDebug_def split: sum.splits)

lemma check_never_throws: "fst (catchDebug msg (fileTry h path m)) \<noteq> Throw e"
  by (simp add: check_cases split: sum.splits)

lemma check_onFile: "list_all (onFile path) (snd (catchDebug msg (fileTry h path m)))"
  by (simp add: check_cases onFile_def split: sum.splits)

lemma check_hd: "\<exists>rest. snd (catchDebug msg (fileTry h path m)) = FsAccess path # rest"
  by (simp add: check_cases split: sum.splits)

lemma check_no_error_entry: "filter (isLogEntry Error) (snd (catchDebug msg (fileTry h path m))) = []"
  by (simp add: check_cases isLogEntry_def split: sum.splits)

lemma outerTry_cases:
  "outerTry h p =
     (if fst (credentialsCheck h p) = Normal
      then (if fst (configCheck h p) = Normal then Return False else fst (configCheck h p),
            snd (credentialsCheck h p) @ snd (configCheck h p))
      else credentialsCheck h p)"
  by (simp add: outerTry_def split: prod.splits completion.splits)

lemma outerTry_never_throws: "fst (outerTry h p) \<noteq> Throw e"
  by (simp add: outerTry_cases credentialsCheck_def configCheck_def check_never_throws)

lemma doesAwsProfileExist_cases:
  "doesAwsProfileExist h p =
     (if fst (credentialsCheck h p) = Return True then (Resolved (Boolean True), snd (credentialsCheck h p))
      else (Resolved (Boolean (fst (configCheck h p) = Return True)),
            snd (credentialsCheck h p) @ snd (configCheck h p)))"
proof -
  have a: "fst (credentialsCheck h p) = Normal \<or> fst (credentialsCheck h p) = Return True"
    by (simp add: credentialsCheck_def check_cases split: sum.splits)
  have b: "fst (configCheck h p) = Normal \<or> fst (configCheck h p) = Return True"
    by (simp add: configCheck_def check_cases split: sum.splits)
  from a b show ?thesis
    by (auto simp: doesAwsProfileExist_def outerTry_cases split: prod.splits completion.splits)
qed

lemma credentialsCheck_Return_iff:
  "fst (credentialsCheck h p) = Return True \<longleftrightarrow>
      fs_access h (credentialsPath h) = Inr ()
        \<and> (\<exists>pre suf. fs_readFile h (credentialsPath h) ''utf8'' = Inr (pre @ ''['' @ p @ '']'' @ suf))"
  by (auto simp: credentialsCheck_def check_cases string_includes_iff split: sum.splits)

lemma configCheck_Return_iff:
  "fst (configCheck h p) = Return True \<longleftrightarrow>
      fs_access h (configPath h) = Inr ()
        \<and> (\<exists>pre suf. fs_readFile h (configPath h) ''utf8'' = Inr (pre @ ''[profile '' @ p @ '']'' @ suf))"
  by (auto simp: configCheck_def check_cases string_includes_iff split: sum.splits)

lemma check_log_message:
  "Logger l msg' ctx \<in> set (snd (catchDebug msg (fileTry h path m))) \<Longrightarrow> msg' = msg \<and> l = Debug"
  by (auto simp: check_cases split: sum.splits if_splits)

lemma check_inaccessible:
  "isl (fs_access h path) \<Longrightarrow> catchDebug msg (fileTry h path m) = (Normal, [FsAccess path])"
  by (cases "fs_access h path") (simp_all add: check_cases)

lemma string_includes_append_right: "string_includes suf s \<Longrightarrow> string_includes (pre @ suf) s"
  unfolding string_includes_iff by (metis append.assoc)

subsection \<open>isRemoteSSH\<close>

text \<open>
  Claim C3. For every remote name of the host, \<open>isRemoteSSH\<close> returns true exactly when the
  remote name is the string \<open>ssh-remote\<close>. It returns false when the remote name is
  undefined, when it is the empty string, and for the identifiers of a container and of WSL.
\<close>

theorem isRemoteSSH_exactly_ssh_remote:
  "isRemoteSSH h = (remoteName h = Some ''ssh-remote'')
   \<and> \<not> isRemoteSSH (h\<lparr>remoteName := None\<rparr>)
   \<and> \<not> isRemoteSSH (h\<lparr>remoteName := Some ''''\<rparr>)
   \<and> \<not> isRemoteSSH (h\<lparr>remoteName := Some ''dev-container''\<rparr>)
   \<and> \<not> isRemoteSSH (h\<lparr>remoteName := Some ''wsl''\<rparr>)"
  by (auto simp: isRemoteSSH_def Let_def)

subsection \<open>doesAwsProfileExist\<close>

text \<open>
  Claim C1. For every profile name and every host, \<open>doesAwsProfileExist\<close> resolves to a
  boolean, and that boolean is true exactly when the credentials file can be accessed and
  read and its content contains \<open>[p]\<close> somewhere, or the config file can be accessed and
  read and its content contains \<open>[profile p]\<close> somewhere. In every other case it resolves
  to false. Containment is stated with a text before and a text after the marker.
\<close>

theorem doesAwsProfileExist_true_iff_marker:
  "fst (doesAwsProfileExist h p) =
     Resolved (Boolean
       ((fs_access h (credentialsPath h) = Inr ()
          \<and> (\<exists>content pre suf. fs_readFile h (credentialsPath h) ''utf8'' = Inr content
                \<and> content = pre @ ''['' @ p @ '']'' @ suf))
        \<or> (fs_access h (configPath h) = Inr ()
          \<and> (\<exists>content pre suf. fs_readFile h (configPath h) ''utf8'' = Inr content
                \<and> content = pre @ ''[profile '' @ p @ '']'' @ suf))))"
proof -
  have cred: "fst (credentialsCheck h p) = Return True \<longleftrightarrow>
      fs_access h (credentialsPath h) = Inr ()
        \<and> (\<exists>content pre suf. fs_readFile h (credentialsPath h) ''utf8'' = Inr content
              \<and> content = pre @ ''['' @ p @ '']'' @ suf)"
    unfolding credentialsCheck_Return_iff by auto
  have conf: "fst (configCheck h p) = Return True \<longleftrightarrow>
      fs_access h (configPath h) = Inr ()
        \<and> (\<exists>content pre suf. fs_readFile h (configPath h) ''utf8'' = Inr content
              \<and> content = pre @ ''[profile '' @ p @ '']'' @ suf)"
    unfolding configCheck_Return_iff by auto
  show ?thesis
    unfolding doesAwsProfileExist_cases cred [symmetric] conf [symmetric] by simp
qed

text \<open>
  Claim C2, as the code has it. Whatever \<open>fs.access\<close> and \<open>fs.readFile\<close> do,
  \<open>doesAwsProfileExist\<close> resolves to a boolean and is never rejected: every error is caught
  inside. An error on one file makes the check of that file find nothing, and the result is
  then what the other file gives: true when the other file can be read and holds its
  marker, false otherwise. When the access or the read fails for each of the two files, the
  result is false.
\<close>

theorem errors_caught_and_file_skipped:
  "(\<exists>b. fst (doesAwsProfileExist h p) = Resolved (Boolean b))
   \<and> (\<forall>e. fst (doesAwsProfileExist h p) \<noteq> Rejected e)
   \<and> (isl (fs_access h (credentialsPath h)) \<or> isl (fs_readFile h (credentialsPath h) ''utf8'')
       \<longrightarrow> fst (doesAwsProfileExist h p)
           = Resolved (Boolean (fs_access h (configPath h) = Inr ()
               \<and> (\<exists>pre suf. fs_readFile h (configPath h) ''utf8''
                                = Inr (pre @ ''[profile '' @ p @ '']'' @ suf)))))
   \<and> (isl (fs_access h (configPath h)) \<or> isl (fs_readFile h (configPath h) ''utf8'')
       \<longrightarrow> fst (doesAwsProfileExist h p)
           = Resolved (Boolean (fs_access h (credentialsPath h) = Inr ()
               \<and> (\<exists>pre suf. fs_readFile h (credentialsPath h) ''utf8''
                                = Inr (pre @ ''['' @ p @ '']'' @ suf)))))
   \<and> ((isl (fs_access h (credentialsPath h)) \<or> isl (fs_readFile h (credentialsPath h) ''utf8''))
        \<and> (isl (fs_access h (configPath h)) \<or> isl (fs_readFile h (configPath h) ''utf8''))
       \<longrightarrow> fst (doesAwsProfileExist h p) = Resolved (Boolean False))"
proof -
  have cred_fail: "fst (credentialsCheck h p) \<noteq> Return True"
    if "isl (fs_access h (credentialsPath h)) \<or> isl (fs_readFile h (credentialsPath h) ''utf8'')"
    using that by (auto simp: credentialsCheck_Return_iff)
  have conf_fail: "fst (configCheck h p) \<noteq> Return True"
    if "isl (fs_access h (configPath h)) \<or> isl (fs_readFile h (configPath h) ''utf8'')"
    using that by (auto simp: configCheck_Return_iff)
  have a: "fst (doesAwsProfileExist h p)
           = Resolved (Boolean (fs_access h (configPath h) = Inr ()
               \<and> (\<exists>pre suf. fs_readFile h (configPath h) ''utf8''
                                = Inr (pre @ ''[profile '' @ p @ '']'' @ suf))))"
    if "isl (fs_access h (credentialsPath h)) \<or> isl (fs_readFile h (credentialsPath h) ''utf8'')"
  proof -
    have "fst (doesAwsProfileExist h p) = Resolved (Boolean (fst (configCheck h p) = Return True))"
      using cred_fail [OF that] by (simp add: doesAwsProfileExist_cases)
    then show ?thesis unfolding configCheck_Return_iff .
  qed
  have b: "fst (doesAwsProfileExist h p)
           = Resolved (Boolean (fs_access h (credentialsPath h) = Inr ()
               \<and> (\<exists>pre suf. fs_readFile h (credentialsPath h) ''utf8''
                                = Inr (pre @ ''['' @ p @ '']'' @ suf))))"
    if "isl (fs_access h (configPath h)) \<or> isl (fs_readFile h (configPath h) ''utf8'')"
  proof -
    have "fst (doesAwsProfileExist h p)
        = Resolved (Boolean (fst (credentialsCheck h p) = Return True))"
      using conf_fail [OF that] by (simp add: doesAwsProfileExist_cases)
    then show ?thesis unfolding credentialsCheck_Return_iff .
  qed
  have c: "\<exists>b. fst (doesAwsProfileExist h p) = Resolved (Boolean b)"
    by (auto simp: doesAwsProfileExist_cases)
  then have d: "\<forall>e. fst (doesAwsProfileExist h p) \<noteq> Rejected e"
    by auto
  have e: "fst (doesAwsProfileExist h p) = Resolved (Boolean False)"
    if "isl (fs_access h (credentialsPath h)) \<or> isl (fs_readFile h (credentialsPath h) ''utf8'')"
      and "isl (fs_access h (configPath h)) \<or> isl (fs_readFile h (configPath h) ''utf8'')"
    using cred_fail [OF that(1)] conf_fail [OF that(2)] by (simp add: doesAwsProfileExist_cases)
  from a b c d e show ?thesis by blast
qed

text \<open>
  The credentials file can be accessed but not read, the config file cannot be accessed.
\<close>

theorem errors_caught_and_file_skipped_witness:
  "(isl (fs_access (mockHost None (Unreadable (ErrorInstance ''Permission denied''))
                                  (Inaccessible (NonError ''ENOENT'')))
          ''/mock/home/.aws/credentials'')
      \<or> isl (fs_readFile (mockHost None (Unreadable (ErrorInstance ''Permission denied''))
                                        (Inaccessible (NonError ''ENOENT'')))
          ''/mock/home/.aws/credentials'' ''utf8''))
   \<and> (isl (fs_access (mockHost None (Unreadable (ErrorInstance ''Permission denied''))
                                  (Inaccessible (NonError ''ENOENT'')))
          ''/mock/home/.aws/config'')
      \<or> isl (fs_readFile (mockHost None (Unreadable (ErrorInstance ''Permission denied''))
                                        (Inaccessible (NonError ''ENOENT'')))
          ''/mock/home/.aws/config'' ''utf8''))
   \<and> fst (doesAwsProfileExist (mockHost None (Unreadable (ErrorInstance ''Permission denied''))
                                              (Inaccessible (NonError ''ENOENT''))) ''default'')
       = Resolved (Boolean False)"
  using errors_caught_and_file_skipped
    [of "mockHost None (Unreadable (ErrorInstance ''Permission denied''))
                       (Inaccessible (NonError ''ENOENT''))" "''default''"]
  by (simp add: mockHost_def credentialsPath_def configPath_def accessFile_def readFile_def)

text \<open>
  Claim C2, as stated, has every error turned into the result false. With a credentials file
  that can be accessed but whose read is denied, and a config file that names the profile,
  the error is caught and logged at debug level, and the function resolves to true.
\<close>

theorem error_not_always_false_counterexample:
  "fs_access (mockHost None (Unreadable (ErrorInstance ''Permission denied''))
                            (Readable ''[profile default]\<newline>region=us-west-2''))
       (credentialsPath (mockHost None (Unreadable (ErrorInstance ''Permission denied''))
                            (Readable ''[profile default]\<newline>region=us-west-2''))) = Inr ()
   \<and> fs_readFile (mockHost None (Unreadable (ErrorInstance ''Permission denied''))
                            (Readable ''[profile default]\<newline>region=us-west-2''))
       (credentialsPath (mockHost None (Unreadable (ErrorInstance ''Permission denied''))
                            (Readable ''[profile default]\<newline>region=us-west-2''))) ''utf8''
       = Inl (ErrorInstance ''Permission denied'')
   \<and> doesAwsProfileExist (mockHost None (Unreadable (ErrorInstance ''Permission denied''))
                            (Readable ''[profile default]\<newline>region=us-west-2'')) ''default''
       = (Resolved (Boolean True),
          [FsAccess ''/mock/home/.aws/credentials'',
           FsReadFile ''/mock/home/.aws/credentials'' ''utf8'',
           Logger Debug ''Error checking AWS credentials file''
             [(''ctx'', Str ''aws-profile''), (''error'', Str ''Permission denied'')],
           FsAccess ''/mock/home/.aws/config'',
           FsReadFile ''/mock/home/.aws/config'' ''utf8''])
   \<and> fst (doesAwsProfileExist (mockHost None (Unreadable (ErrorInstance ''Permission denied''))
                            (Readable ''[profile default]\<newline>region=us-west-2'')) ''default'')
       \<noteq> Resolved (Boolean False)"
  by (simp add: doesAwsProfileExist_def outerTry_def credentialsCheck_def configCheck_def
      catchDebug_def fileTry_def fileExists_def mockHost_def credentialsPath_def configPath_def
      accessFile_def readFile_def errorText_def)

text \<open>
  Claim C4. The calls of \<open>doesAwsProfileExist\<close> come in two runs: first the calls for the
  credentials file, starting with its access check, then the calls for the config file.
  When the credentials file can be accessed and its content contains \<open>[p]\<close>, the function
  resolves to true after the access and the read of the credentials file and issues no
  other call: the config file is neither accessed nor read.
\<close>

theorem credentials_first_and_short_circuit:
  "(\<exists>t1 t2 rest. snd (doesAwsProfileExist h p) = t1 @ t2
        \<and> t1 = FsAccess (credentialsPath h) # rest
        \<and> list_all (onFile (credentialsPath h)) t1
        \<and> list_all (onFile (configPath h)) t2)
   \<and> (fs_access h (credentialsPath h) = Inr ()
        \<and> fs_readFile h (credentialsPath h) ''utf8'' = Inr (pre @ ''['' @ p @ '']'' @ suf)
       \<longrightarrow> doesAwsProfileExist h p =
             (Resolved (Boolean True),
              [FsAccess (credentialsPath h), FsReadFile (credentialsPath h) ''utf8''])
           \<and> (credentialsPath h \<noteq> configPath h \<longrightarrow>
                FsAccess (configPath h) \<notin> set (snd (doesAwsProfileExist h p))
                \<and> FsReadFile (configPath h) ''utf8'' \<notin> set (snd (doesAwsProfileExist h p))))"
proof -
  obtain rest where hd: "snd (credentialsCheck h p) = FsAccess (credentialsPath h) # rest"
    using check_hd [of "''Error checking AWS credentials file''" h "credentialsPath h"
        "''['' @ p @ '']''"]
    by (auto simp: credentialsCheck_def)
  have c1: "list_all (onFile (credentialsPath h)) (snd (credentialsCheck h p))"
    by (simp add: credentialsCheck_def check_onFile)
  have c2: "list_all (onFile (configPath h)) (snd (configCheck h p))"
    by (simp add: configCheck_def check_onFile)
  have split: "\<exists>t1 t2 rest. snd (doesAwsProfileExist h p) = t1 @ t2
        \<and> t1 = FsAccess (credentialsPath h) # rest
        \<and> list_all (onFile (credentialsPath h)) t1
        \<and> list_all (onFile (configPath h)) t2"
  proof (cases "fst (credentialsCheck h p) = Return True")
    case True
    then have "snd (doesAwsProfileExist h p) = snd (credentialsCheck h p) @ []"
      by (simp add: doesAwsProfileExist_cases)
    moreover have "list_all (onFile (configPath h)) []" by simp
    ultimately show ?thesis using hd c1 by metis
  next
    case False
    then have "snd (doesAwsProfileExist h p) = snd (credentialsCheck h p) @ snd (configCheck h p)"
      by (simp add: doesAwsProfileExist_cases)
    with hd c1 c2 show ?thesis by metis
  qed
  have short: "doesAwsProfileExist h p =
             (Resolved (Boolean True),
              [FsAccess (credentialsPath h), FsReadFile (credentialsPath h) ''utf8''])"
    if "fs_access h (credentialsPath h) = Inr ()"
      and "fs_readFile h (credentialsPath h) ''utf8'' = Inr (pre @ ''['' @ p @ '']'' @ suf)"
    using that string_includes_appendI [of pre "''['' @ p @ '']''" suf]
    by (simp add: doesAwsProfileExist_cases credentialsCheck_def check_cases)
  from split short show ?thesis by auto
qed

text \<open>The credentials file holds \<open>[default]\<close> and a key, the profile is \<open>default\<close>.\<close>

theorem credentials_first_and_short_circuit_witness:
  "fs_access (mockHost None (Readable ''[default]\<newline>key=value'') (Readable ''[profile default]''))
       ''/mock/home/.aws/credentials'' = Inr ()
   \<and> fs_readFile (mockHost None (Readable ''[default]\<newline>key=value'') (Readable ''[profile default]''))
       ''/mock/home/.aws/credentials'' ''utf8'' = Inr ('''' @ ''['' @ ''default'' @ '']'' @ ''\<newline>key=value'')
   \<and> ''/mock/home/.aws/credentials'' \<noteq> ''/mock/home/.aws/config''
   \<and> doesAwsProfileExist
         (mockHost None (Readable ''[default]\<newline>key=value'') (Readable ''[profile default]''))
         ''default''
       = (Resolved (Boolean True),
          [FsAccess ''/mock/home/.aws/credentials'',
           FsReadFile ''/mock/home/.aws/credentials'' ''utf8''])
   \<and> FsAccess ''/mock/home/.aws/config''
       \<notin> set (snd (doesAwsProfileExist
         (mockHost None (Readable ''[default]\<newline>key=value'') (Readable ''[profile default]''))
         ''default''))"
  using credentials_first_and_short_circuit
    [of "mockHost None (Readable ''[default]\<newline>key=value'') (Readable ''[profile default]'')"
        "''default''" "''''" "''\<newline>key=value''"]
  by (simp add: mockHost_def credentialsPath_def configPath_def accessFile_def readFile_def)

text \<open>
  Claim C5. When reading one of the two files fails, the error is caught, one logger call at
  debug level carries the text of the error, and the check goes on. After a failed read of
  the credentials file the next call is the access check of the config file, and if the
  config file can be read and contains \<open>[profile p]\<close> the function resolves to true.
  After a failed read of the config file, reached because the credentials file did not
  yield the marker, the debug entry is the last call and the function resolves to false.
  For an \<open>Error\<close> instance the text logged is its message.
\<close>

theorem read_error_logged_and_check_continues:
  "(fs_access h (credentialsPath h) = Inr () \<and> fs_readFile h (credentialsPath h) ''utf8'' = Inl e
     \<longrightarrow> (\<exists>rest. snd (doesAwsProfileExist h p) =
            [FsAccess (credentialsPath h), FsReadFile (credentialsPath h) ''utf8'',
             Logger Debug ''Error checking AWS credentials file''
               [(''ctx'', Str ''aws-profile''), (''error'', Str (errorText e))],
             FsAccess (configPath h)] @ rest)
         \<and> (fs_access h (configPath h) = Inr ()
              \<and> fs_readFile h (configPath h) ''utf8'' = Inr (pre @ ''[profile '' @ p @ '']'' @ suf)
             \<longrightarrow> fst (doesAwsProfileExist h p) = Resolved (Boolean True)))
   \<and> (fs_access h (configPath h) = Inr () \<and> fs_readFile h (configPath h) ''utf8'' = Inl e'
        \<and> \<not> (fs_access h (credentialsPath h) = Inr ()
               \<and> (\<exists>pre suf. fs_readFile h (credentialsPath h) ''utf8''
                                = Inr (pre @ ''['' @ p @ '']'' @ suf)))
     \<longrightarrow> (\<exists>t. snd (doesAwsProfileExist h p) =
            t @ [FsAccess (configPath h), FsReadFile (configPath h) ''utf8'',
                 Logger Debug ''Error checking AWS config file''
                   [(''ctx'', Str ''aws-profile''), (''error'', Str (errorText e'))]])
         \<and> fst (doesAwsProfileExist h p) = Resolved (Boolean False))
   \<and> errorText (ErrorInstance m) = m"
proof -
  have a: "\<exists>rest. snd (doesAwsProfileExist h p) =
            [FsAccess (credentialsPath h), FsReadFile (credentialsPath h) ''utf8'',
             Logger Debug ''Error checking AWS credentials file''
               [(''ctx'', Str ''aws-profile''), (''error'', Str (errorText e))],
             FsAccess (configPath h)] @ rest"
    if "fs_access h (credentialsPath h) = Inr ()"
      and "fs_readFile h (credentialsPath h) ''utf8'' = Inl e"
    using that
    by (simp add: doesAwsProfileExist_cases credentialsCheck_def configCheck_def check_cases
        split: sum.splits)
  have b: "fst (doesAwsProfileExist h p) = Resolved (Boolean True)"
    if "fs_access h (configPath h) = Inr ()"
      and "fs_readFile h (configPath h) ''utf8'' = Inr (pre @ ''[profile '' @ p @ '']'' @ suf)"
    using that string_includes_appendI [of pre "''[profile '' @ p @ '']''" suf]
    by (simp add: doesAwsProfileExist_cases configCheck_def check_cases)
  have c: "(\<exists>t. snd (doesAwsProfileExist h p) =
            t @ [FsAccess (configPath h), FsReadFile (configPath h) ''utf8'',
                 Logger Debug ''Error checking AWS config file''
                   [(''ctx'', Str ''aws-profile''), (''error'', Str (errorText e'))]])
         \<and> fst (doesAwsProfileExist h p) = Resolved (Boolean False)"
    if "fs_access h (configPath h) = Inr ()"
      and "fs_readFile h (configPath h) ''utf8'' = Inl e'"
      and "fst (credentialsCheck h p) \<noteq> Return True"
    using that
    by (simp add: doesAwsProfileExist_cases configCheck_def check_cases)
  from a b c show ?thesis
    unfolding credentialsCheck_Return_iff by (simp add: errorText_def)
qed

text \<open>
  Reading the credentials file is denied while the config file names the profile; and
  reading fails for both files.
\<close>

theorem read_error_logged_and_check_continues_witness:
  "fs_access (mockHost None (Unreadable (ErrorInstance ''Permission denied''))
                            (Readable ''[profile default]\<newline>region=us-west-2''))
       ''/mock/home/.aws/credentials'' = Inr ()
   \<and> fs_readFile (mockHost None (Unreadable (ErrorInstance ''Permission denied''))
                            (Readable ''[profile default]\<newline>region=us-west-2''))
       ''/mock/home/.aws/credentials'' ''utf8'' = Inl (ErrorInstance ''Permission denied'')
   \<and> fs_access (mockHost None (Unreadable (ErrorInstance ''Permission denied''))
                            (Readable ''[profile default]\<newline>region=us-west-2''))
       ''/mock/home/.aws/config'' = Inr ()
   \<and> fs_readFile (mockHost None (Unreadable (ErrorInstance ''Permission denied''))
                            (Readable ''[profile default]\<newline>region=us-west-2''))
       ''/mock/home/.aws/config'' ''utf8''
       = Inr ('''' @ ''[profile '' @ ''default'' @ '']'' @ ''\<newline>region=us-west-2'')
   \<and> (\<exists>rest. snd (doesAwsProfileExist
          (mockHost None (Unreadable (ErrorInstance ''Permission denied''))
                         (Readable ''[profile default]\<newline>region=us-west-2'')) ''default'') =
            [FsAccess ''/mock/home/.aws/credentials'',
             FsReadFile ''/mock/home/.aws/credentials'' ''utf8'',
             Logger Debug ''Error checking AWS credentials file''
               [(''ctx'', Str ''aws-profile''), (''error'', Str ''Permission denied'')],
             FsAccess ''/mock/home/.aws/config''] @ rest)
   \<and> fst (doesAwsProfileExist
          (mockHost None (Unreadable (ErrorInstance ''Permission denied''))
                         (Readable ''[profile default]\<newline>region=us-west-2'')) ''default'')
       = Resolved (Boolean True)
   \<and> fs_access (mockHost None (Unreadable (ErrorInstance ''Permission denied''))
                            (Unreadable (NonError ''EACCES'')))
       ''/mock/home/.aws/config'' = Inr ()
   \<and> fs_readFile (mockHost None (Unreadable (ErrorInstance ''Permission denied''))
                            (Unreadable (NonError ''EACCES'')))
       ''/mock/home/.aws/config'' ''utf8'' = Inl (NonError ''EACCES'')
   \<and> \<not> (fs_access (mockHost None (Unreadable (ErrorInstance ''Permission denied''))
                            (Unreadable (NonError ''EACCES'')))
            ''/mock/home/.aws/credentials'' = Inr ()
          \<and> (\<exists>pre suf. fs_readFile (mockHost None (Unreadable (ErrorInstance ''Permission denied''))
                            (Unreadable (NonError ''EACCES'')))
            ''/mock/home/.aws/credentials'' ''utf8'' = Inr (pre @ ''['' @ ''default'' @ '']'' @ suf)))
   \<and> (\<exists>t. snd (doesAwsProfileExist
          (mockHost None (Unreadable (ErrorInstance ''Permission denied''))
                         (Unreadable (NonError ''EACCES''))) ''default'') =
            t @ [FsAccess ''/mock/home/.aws/config'', FsReadFile ''/mock/home/.aws/config'' ''utf8'',
                 Logger Debug ''Error checking AWS config file''
                   [(''ctx'', Str ''aws-profile''), (''error'', Str ''EACCES'')]])
   \<and> fst (doesAwsProfileExist
          (mockHost None (Unreadable (ErrorInstance ''Permission denied''))
                         (Unreadable (NonError ''EACCES''))) ''default'')
       = Resolved (Boolean False)"
  using
    read_error_logged_and_check_continues
      [of "mockHost None (Unreadable (ErrorInstance ''Permission denied''))
                         (Readable ''[profile default]\<newline>region=us-west-2'')"
          "ErrorInstance ''Permission denied''" "''default''" "''''" "''\<newline>region=us-west-2''"
          "NonError ''EACCES''" "''''"]
    read_error_logged_and_check_continues
      [of "mockHost None (Unreadable (ErrorInstance ''Permission denied''))
                         (Unreadable (NonError ''EACCES''))"
          "ErrorInstance ''Permission denied''" "''default''" "''''" "''''"
          "NonError ''EACCES''" "''''"]
  by (simp add: mockHost_def credentialsPath_def configPath_def accessFile_def readFile_def
      errorText_def)

text \<open>
  Claim C6, as the code has it. When the access check of a file fails, \<open>fileExists\<close>
  answers false without logging, so no logger call is issued for that file, and the check
  goes on: after a failed access to the credentials file the next call is the access check
  of the config file, and the result is what the config file gives; after a failed access
  to the config file the result is what the credentials file gave; when both access checks
  fail the function resolves to false after exactly these two calls.
\<close>

theorem inaccessible_file_skipped_silently:
  "(isl (fs_access h (credentialsPath h))
     \<longrightarrow> (\<exists>rest. snd (doesAwsProfileExist h p)
                = FsAccess (credentialsPath h) # FsAccess (configPath h) # rest)
         \<and> (\<forall>l ctx. Logger l ''Error checking AWS credentials file'' ctx
                \<notin> set (snd (doesAwsProfileExist h p)))
         \<and> fst (doesAwsProfileExist h p)
             = Resolved (Boolean (fs_access h (configPath h) = Inr ()
                 \<and> (\<exists>pre suf. fs_readFile h (configPath h) ''utf8''
                                  = Inr (pre @ ''[profile '' @ p @ '']'' @ suf)))))
   \<and> (isl (fs_access h (configPath h))
     \<longrightarrow> (\<forall>l ctx. Logger l ''Error checking AWS config file'' ctx
                \<notin> set (snd (doesAwsProfileExist h p)))
         \<and> fst (doesAwsProfileExist h p)
             = Resolved (Boolean (fs_access h (credentialsPath h) = Inr ()
                 \<and> (\<exists>pre suf. fs_readFile h (credentialsPath h) ''utf8''
                                  = Inr (pre @ ''['' @ p @ '']'' @ suf)))))
   \<and> (isl (fs_access h (credentialsPath h)) \<and> isl (fs_access h (configPath h))
     \<longrightarrow> doesAwsProfileExist h p
           = (Resolved (Boolean False), [FsAccess (credentialsPath h), FsAccess (configPath h)]))"
proof -
  have cred_only: "Logger l ''Error checking AWS config file'' ctx \<notin> set (snd (credentialsCheck h p))"
    for l ctx
    using check_log_message [of l "''Error checking AWS config file''" ctx
        "''Error checking AWS credentials file''" h "credentialsPath h" "''['' @ p @ '']''"]
    by (auto simp: credentialsCheck_def)
  have conf_only: "Logger l ''Error checking AWS credentials file'' ctx \<notin> set (snd (configCheck h p))"
    for l ctx
    using check_log_message [of l "''Error checking AWS credentials file''" ctx
        "''Error checking AWS config file''" h "configPath h" "''[profile '' @ p @ '']''"]
    by (auto simp: configCheck_def)
  obtain rest where hd: "snd (configCheck h p) = FsAccess (configPath h) # rest"
    using check_hd [of "''Error checking AWS config file''" h "configPath h"
        "''[profile '' @ p @ '']''"]
    by (auto simp: configCheck_def)
  have a: "(\<exists>rest. snd (doesAwsProfileExist h p)
                = FsAccess (credentialsPath h) # FsAccess (configPath h) # rest)
         \<and> (\<forall>l ctx. Logger l ''Error checking AWS credentials file'' ctx
                \<notin> set (snd (doesAwsProfileExist h p)))
         \<and> fst (doesAwsProfileExist h p)
             = Resolved (Boolean (fs_access h (configPath h) = Inr ()
                 \<and> (\<exists>pre suf. fs_readFile h (configPath h) ''utf8''
                                  = Inr (pre @ ''[profile '' @ p @ '']'' @ suf))))"
    if "isl (fs_access h (credentialsPath h))"
  proof -
    have skipped: "credentialsCheck h p = (Normal, [FsAccess (credentialsPath h)])"
      using that by (simp add: credentialsCheck_def check_inaccessible)
    then have "snd (doesAwsProfileExist h p) = FsAccess (credentialsPath h) # snd (configCheck h p)"
      by (simp add: doesAwsProfileExist_cases)
    moreover from skipped
    have "fst (doesAwsProfileExist h p) = Resolved (Boolean (fst (configCheck h p) = Return True))"
      by (simp add: doesAwsProfileExist_cases)
    ultimately show ?thesis
      using hd conf_only unfolding configCheck_Return_iff by auto
  qed
  have b: "(\<forall>l ctx. Logger l ''Error checking AWS config file'' ctx
                \<notin> set (snd (doesAwsProfileExist h p)))
         \<and> fst (doesAwsProfileExist h p)
             = Resolved (Boolean (fs_access h (credentialsPath h) = Inr ()
                 \<and> (\<exists>pre suf. fs_readFile h (credentialsPath h) ''utf8''
                                  = Inr (pre @ ''['' @ p @ '']'' @ suf))))"
    if "isl (fs_access h (configPath h))"
  proof -
    have skipped: "configCheck h p = (Normal, [FsAccess (configPath h)])"
      using that by (simp add: configCheck_def check_inaccessible)
    then have "fst (doesAwsProfileExist h p)
        = Resolved (Boolean (fst (credentialsCheck h p) = Return True))"
      by (simp add: doesAwsProfileExist_cases)
    moreover from skipped cred_only
    have "Logger l ''Error checking AWS config file'' ctx \<notin> set (snd (doesAwsProfileExist h p))"
      for l ctx
      by (auto simp: doesAwsProfileExist_cases)
    ultimately show ?thesis
      unfolding credentialsCheck_Return_iff by simp
  qed
  have c: "doesAwsProfileExist h p
           = (Resolved (Boolean False), [FsAccess (credentialsPath h), FsAccess (configPath h)])"
    if "isl (fs_access h (credentialsPath h))" and "isl (fs_access h (configPath h))"
    using that
    by (simp add: doesAwsProfileExist_cases credentialsCheck_def configCheck_def check_inaccessible)
  from a b c show ?thesis by blast
qed

text \<open>Neither file exists.\<close>

theorem inaccessible_file_skipped_silently_witness:
  "isl (fs_access (mockHost None (Inaccessible (ErrorInstance ''File not found''))
                                 (Inaccessible (ErrorInstance ''File not found'')))
         ''/mock/home/.aws/credentials'')
   \<and> isl (fs_access (mockHost None (Inaccessible (ErrorInstance ''File not found''))
                                 (Inaccessible (ErrorInstance ''File not found'')))
         ''/mock/home/.aws/config'')
   \<and> doesAwsProfileExist (mockHost None (Inaccessible (ErrorInstance ''File not found''))
                                 (Inaccessible (ErrorInstance ''File not found''))) ''default''
      = (Resolved (Boolean False),
         [FsAccess ''/mock/home/.aws/credentials'', FsAccess ''/mock/home/.aws/config''])"
  using inaccessible_file_skipped_silently
    [of "mockHost None (Inaccessible (ErrorInstance ''File not found''))
                       (Inaccessible (ErrorInstance ''File not found''))" "''default''"]
  by (simp add: mockHost_def credentialsPath_def configPath_def accessFile_def)

text \<open>
  Claim C6, as stated, asks for a debug entry for a file whose access check fails. With the
  credentials file missing and the config file naming the profile, the function resolves to
  true and its calls hold no logger call at debug level.
\<close>

theorem inaccessible_file_debug_entry_counterexample:
  "isl (fs_access (mockHost None (Inaccessible (ErrorInstance ''File not found''))
                                 (Readable ''[profile default]\<newline>region=us-west-2''))
         (credentialsPath (mockHost None (Inaccessible (ErrorInstance ''File not found''))
                                 (Readable ''[profile default]\<newline>region=us-west-2''))))
   \<and> filter (isLogEntry Debug)
        (snd (doesAwsProfileExist (mockHost None (Inaccessible (ErrorInstance ''File not found''))
                                 (Readable ''[profile default]\<newline>region=us-west-2'')) ''default'')) = []
   \<and> doesAwsProfileExist (mockHost None (Inaccessible (ErrorInstance ''File not found''))
                                 (Readable ''[profile default]\<newline>region=us-west-2'')) ''default''
      = (Resolved (Boolean True),
         [FsAccess ''/mock/home/.aws/credentials'', FsAccess ''/mock/home/.aws/config'',
          FsReadFile ''/mock/home/.aws/config'' ''utf8''])"
  by (simp add: doesAwsProfileExist_def outerTry_def credentialsCheck_def configCheck_def
      catchDebug_def fileTry_def fileExists_def mockHost_def credentialsPath_def configPath_def
      accessFile_def readFile_def isLogEntry_def)

text \<open>
  Claim C9. The marker test is containment anywhere in the text: whatever stands before
  and after \<open>[p]\<close> in a credentials file that can be read, the function resolves to true.
  For the empty profile name it resolves to true when the credentials file contains
  \<open>[]\<close>, and when the config file contains \<open>[profile ]\<close>.
\<close>

theorem marker_found_anywhere:
  "(fs_access h (credentialsPath h) = Inr ()
      \<and> fs_readFile h (credentialsPath h) ''utf8'' = Inr (pre @ ''['' @ p @ '']'' @ suf)
     \<longrightarrow> fst (doesAwsProfileExist h p) = Resolved (Boolean True))
   \<and> (fs_access h (credentialsPath h) = Inr ()
      \<and> fs_readFile h (credentialsPath h) ''utf8'' = Inr (pre @ ''[]'' @ suf)
     \<longrightarrow> fst (doesAwsProfileExist h '''') = Resolved (Boolean True))
   \<and> (fs_access h (configPath h) = Inr ()
      \<and> fs_readFile h (configPath h) ''utf8'' = Inr (pre @ ''[profile ]'' @ suf)
     \<longrightarrow> fst (doesAwsProfileExist h '''') = Resolved (Boolean True))"
proof -
  have a: "fst (doesAwsProfileExist h q) = Resolved (Boolean True)"
    if "fs_access h (credentialsPath h) = Inr ()"
      and "fs_readFile h (credentialsPath h) ''utf8'' = Inr (pre @ ''['' @ q @ '']'' @ suf)" for q
    using that credentialsCheck_Return_iff [of h q]
    by (auto simp: doesAwsProfileExist_cases)
  have b: "fst (doesAwsProfileExist h q) = Resolved (Boolean True)"
    if "fs_access h (configPath h) = Inr ()"
      and "fs_readFile h (configPath h) ''utf8'' = Inr (pre @ ''[profile '' @ q @ '']'' @ suf)" for q
    using that configCheck_Return_iff [of h q]
    by (auto simp: doesAwsProfileExist_cases)
  from a [of p] a [of "''''"] b [of "''''"] show ?thesis by simp
qed

text \<open>
  The marker inside a value, \<open>key=x[default]y\<close>; and the empty profile name with \<open>[]\<close>
  in the credentials file, or with \<open>[profile ]\<close> in a comment of the config file.
\<close>

theorem marker_found_anywhere_witness:
  "fs_access (mockHost None (Readable ''key=x[default]y'') (Inaccessible (NonError ''ENOENT'')))
       ''/mock/home/.aws/credentials'' = Inr ()
   \<and> fs_readFile (mockHost None (Readable ''key=x[default]y'') (Inaccessible (NonError ''ENOENT'')))
       ''/mock/home/.aws/credentials'' ''utf8'' = Inr (''key=x'' @ ''['' @ ''default'' @ '']'' @ ''y'')
   \<and> fst (doesAwsProfileExist
            (mockHost None (Readable ''key=x[default]y'') (Inaccessible (NonError ''ENOENT'')))
            ''default'') = Resolved (Boolean True)
   \<and> fs_access (mockHost None (Readable ''a = b[]'') (Readable ''# [profile ]''))
       ''/mock/home/.aws/credentials'' = Inr ()
   \<and> fs_readFile (mockHost None (Readable ''a = b[]'') (Readable ''# [profile ]''))
       ''/mock/home/.aws/credentials'' ''utf8'' = Inr (''a = b'' @ ''[]'' @ '''')
   \<and> fst (doesAwsProfileExist (mockHost None (Readable ''a = b[]'') (Readable ''# [profile ]'')) '''')
       = Resolved (Boolean True)
   \<and> fs_access (mockHost None (Inaccessible (NonError ''ENOENT'')) (Readable ''# [profile ]''))
       ''/mock/home/.aws/config'' = Inr ()
   \<and> fs_readFile (mockHost None (Inaccessible (NonError ''ENOENT'')) (Readable ''# [profile ]''))
       ''/mock/home/.aws/config'' ''utf8'' = Inr (''# '' @ ''[profile ]'' @ '''')
   \<and> fst (doesAwsProfileExist
            (mockHost None (Inaccessible (NonError ''ENOENT'')) (Readable ''# [profile ]'')) '''')
       = Resolved (Boolean True)"
  using
    marker_found_anywhere
      [of "mockHost None (Readable ''key=x[default]y'') (Inaccessible (NonError ''ENOENT''))"
          "''key=x''" "''default''" "''y''"]
    marker_found_anywhere
      [of "mockHost None (Readable ''a = b[]'') (Readable ''# [profile ]'')"
          "''a = b''" "''''" "''''"]
    marker_found_anywhere
      [of "mockHost None (Inaccessible (NonError ''ENOENT'')) (Readable ''# [profile ]'')"
          "''# ''" "''''" "''''"]
  by (simp add: mockHost_def credentialsPath_def configPath_def accessFile_def readFile_def)

text \<open>
  Claim C10. With the file system operations as the only calls that can fail, the body of
  the outer \<open>try\<close> never throws, so the outer handler never runs: no call of
  \<open>doesAwsProfileExist\<close> issues a logger call at error level.
\<close>

theorem top_level_catch_unreachable:
  "(\<forall>e. fst (outerTry h p) \<noteq> Throw e)
   \<and> filter (isLogEntry Error) (snd (doesAwsProfileExist h p)) = []"
  by (simp add: outerTry_never_throws doesAwsProfileExist_cases credentialsCheck_def
      configCheck_def check_no_error_entry)

subsection \<open>showRemoteProfileError and getDetailedRemoteProfileErrorMessage\<close>

text \<open>
  Claim C8. \<open>showRemoteProfileError\<close> issues exactly two calls and returns nothing: one
  logger call at warn level, whose message contains \<open>AWS Profile "p" not found\<close> and
  whose context has the profile name under \<open>profile\<close> and true under \<open>isRemoteSSH\<close>, and
  one call of \<open>showErrorMessage\<close> with the same message.
\<close>

theorem showRemoteProfileError_calls:
  "\<exists>errorMessage context.
      showRemoteProfileError p
        = ((), [Logger Warn errorMessage context, ShowErrorMessage errorMessage])
      \<and> string_includes errorMessage (''AWS Profile \"'' @ p @ ''\" not found'')
      \<and> map_of context ''profile'' = Some (Str p)
      \<and> map_of context ''isRemoteSSH'' = Some (Flag True)"
proof -
  have "string_includes
      (''AWS Profile \"'' @ p @ ''\" not found in the remote SSH host. '' @
       ''When using VS Code with remote SSH, AWS profiles must exist on the remote machine. '' @
       ''Please either create the profile on the remote machine or use direct AWS credentials instead.'')
      (''AWS Profile \"'' @ p @ ''\" not found'')"
    unfolding string_includes_iff
    by (rule exI [of _ "''''"], rule exI [of _ "'' in the remote SSH host. When using VS Code with remote SSH, AWS profiles must exist on the remote machine. Please either create the profile on the remote machine or use direct AWS credentials instead.''"]) simp
  then show ?thesis by (simp add: showRemoteProfileError_def Let_def)
qed

text \<open>
  Claim C7. \<open>getDetailedRemoteProfileErrorMessage\<close> reads nothing but its argument and
  issues no call; its result is one fixed text before the profile name and one fixed text
  after it, so equal inputs give equal texts. For every profile name the result contains
  \<open>Could not find AWS profile "p"\<close>, \<open>Options to resolve this issue\<close> and the three
  remedies: create the profile on the remote machine, switch to direct credentials, copy the
  credentials from the local machine to the remote machine.
\<close>

theorem detailed_message_contents:
  "string_includes (getDetailedRemoteProfileErrorMessage p)
      (''Could not find AWS profile \"'' @ p @ ''\"'')
   \<and> string_includes (getDetailedRemoteProfileErrorMessage p) ''Options to resolve this issue''
   \<and> string_includes (getDetailedRemoteProfileErrorMessage p)
        ''Create the AWS profile on the remote machine''
   \<and> string_includes (getDetailedRemoteProfileErrorMessage p)
        ''Switch to using direct AWS credentials''
   \<and> string_includes (getDetailedRemoteProfileErrorMessage p)
        ''Copy your AWS credentials from your local machine to the remote machine''
   \<and> (\<exists>before after. \<forall>q. getDetailedRemoteProfileErrorMessage q = before @ q @ after)"
proof -
  let ?tail = "''\" on the remote SSH host.\<newline>      \<newline>When using VS Code with remote SSH, AWS profiles must exist on the remote machine.\<newline>\<newline>Options to resolve this issue:\<newline>1. Create the AWS profile on the remote machine\<newline>2. Switch to using direct AWS credentials instead of a profile\<newline>3. Copy your AWS credentials from your local machine to the remote machine''"
  have shape: "getDetailedRemoteProfileErrorMessage q
      = ''Error: Could not find AWS profile \"'' @ q @ ?tail" for q
    by (simp add: getDetailedRemoteProfileErrorMessage_def)
  have fixed: "string_includes (getDetailedRemoteProfileErrorMessage p) s"
    if "string_includes ?tail s" for s
    unfolding shape using that by (intro string_includes_append_right)
  have head: "string_includes (getDetailedRemoteProfileErrorMessage p)
      (''Could not find AWS profile \"'' @ p @ ''\"'')"
    unfolding string_includes_iff getDetailedRemoteProfileErrorMessage_def
    by (rule exI [of _ "''Error: ''"], rule exI [of _ "tl ?tail"]) simp
  have o: "string_includes ?tail ''Options to resolve this issue''" by simp
  have r1: "string_includes ?tail ''Create the AWS profile on the remote machine''" by simp
  have r2: "string_includes ?tail ''Switch to using direct AWS credentials''" by simp
  have r3: "string_includes ?tail
      ''Copy your AWS credentials from your local machine to the remote machine''" by simp
  from shape have "\<exists>before after. \<forall>q. getDetailedRemoteProfileErrorMessage q = before @ q @ after"
    by blast
  with head fixed [OF o] fixed [OF r1] fixed [OF r2] fixed [OF r3] show ?thesis by blast
qed

end
